theory Spec2Isabelle
  imports Complex_Main "HOL-Library.Monad_Syntax"
begin

section \<open>dataloading.py: the sentence dataset\<close>

text \<open>
  A sentence is a Python \<open>str\<close>; it is modelled as a list of characters whose code
  points are below 256, one \<^typ>\<open>char\<close> per code point. The vocabulary
  \<open>word2idx\<close> is a Python dict from words to integers, modelled as a map. Python
  integers are unbounded (\<^typ>\<open>int\<close>); \<open>torch.tensor(..., dtype=torch.long)\<close>
  stores them in 64 bits and raises when a value does not fit or is \<open>None\<close>.
\<close>

datatype error = IndexError | TensorError

subsection \<open>The library calls the dataset makes\<close>

text \<open>\<open>str.isspace\<close> on one character below 256: the Unicode white space there.\<close>

definition isspace :: "char \<Rightarrow> bool" where
  "isspace c =
     (let n = (of_char c :: nat)
      in (9 \<le> n \<and> n \<le> 13) \<or> (28 \<le> n \<and> n \<le> 32) \<or> n = 133 \<or> n = 160)"

text \<open>\<open>str.lower\<close>: the upper-case letters below 256 are A-Z and U+00C0-U+00DE without
  the multiplication sign U+00D7; each has its lower case 32 code points higher.\<close>

definition lower_char :: "char \<Rightarrow> char" where
  "lower_char c =
     (let n = (of_char c :: nat)
      in if (65 \<le> n \<and> n \<le> 90) \<or> (192 \<le> n \<and> n \<le> 222 \<and> n \<noteq> 215)
         then char_of (n + 32) else c)"

definition str_lower :: "string \<Rightarrow> string" where
  "str_lower s = map lower_char s"

text \<open>\<open>str.split()\<close> with no separator: the maximal runs of characters that are not
  white space, in order; no empty word. The first argument is the current word,
  reversed.\<close>

fun split_from :: "string \<Rightarrow> string \<Rightarrow> string list" where
  "split_from cur [] = (if cur = [] then [] else [rev cur])"
| "split_from cur (c # cs) =
     (if isspace c
      then (if cur = [] then split_from [] cs else rev cur # split_from [] cs)
      else split_from (c # cur) cs)"

definition str_split :: "string \<Rightarrow> string list" where
  "str_split s = split_from [] s"

text \<open>\<open>xs[i]\<close> on a Python sequence: a negative index counts from the end, an index
  out of range raises \<open>IndexError\<close>.\<close>

definition py_index :: "'a list \<Rightarrow> int \<Rightarrow> error + 'a" where
  "py_index xs i =
     (if 0 \<le> i \<and> i < int (length xs) then Inr (xs ! nat i)
      else if i < 0 \<and> - int (length xs) \<le> i then Inr (xs ! nat (int (length xs) + i))
      else Inl IndexError)"

text \<open>\<open>d.get(key, default)\<close>: the value stored under the key, the default otherwise;
  it never raises. The default is itself the result of \<open>d.get("<unk>")\<close>, which is
  \<open>None\<close> when the vocabulary has no such key.\<close>

definition dict_get :: "('k \<rightharpoonup> 'v) \<Rightarrow> 'k \<Rightarrow> 'v option \<Rightarrow> 'v option" where
  "dict_get d k dflt = (case d k of Some v \<Rightarrow> Some v | None \<Rightarrow> dflt)"

text \<open>\<open>torch.tensor(v, dtype=torch.long)\<close>: a Python integer has to fit in 64 signed
  bits, and \<open>None\<close> is no number.\<close>

definition in_long :: "int \<Rightarrow> bool" where
  "in_long v \<longleftrightarrow> - (2 ^ 63) \<le> v \<and> v < 2 ^ 63"

definition tensor_long :: "int \<Rightarrow> error + int" where
  "tensor_long v = (if in_long v then Inr v else Inl TensorError)"

fun tensor_long_list :: "int option list \<Rightarrow> error + int list" where
  "tensor_long_list [] = Inr []"
| "tensor_long_list (None # vs) = Inl TensorError"
| "tensor_long_list (Some v # vs) =
     (if in_long v
      then (case tensor_long_list vs of Inl e \<Rightarrow> Inl e | Inr ws \<Rightarrow> Inr (v # ws))
      else Inl TensorError)"

subsection \<open>SentenceDataset\<close>

record SentenceDataset =
  data :: "string list list"
  labels :: "int list"
  word2idx :: "string \<rightharpoonup> int"

definition MAX_LEN :: nat where
  "MAX_LEN = 8"

text \<open>\<open>__getitem__\<close>: the encoded example, the label and the length, each as a
  tensor of 64-bit integers.\<close>

definition getitem :: "SentenceDataset \<Rightarrow> int \<Rightarrow> error + (int list \<times> int \<times> int)" where
  "getitem self index =
     (case py_index (data self) index of
        Inl e \<Rightarrow> Inl e
      | Inr tokens \<Rightarrow>
         (case py_index (labels self) index of
            Inl e \<Rightarrow> Inl e
          | Inr label \<Rightarrow>
             (let unk_idx = word2idx self ''<unk>'';
                  pad_idx = 0;
                  indexed = map (\<lambda>word. dict_get (word2idx self) word unk_idx) tokens;
                  len = min (length indexed) MAX_LEN;
                  indexed = (if length indexed < MAX_LEN
                             then indexed @ replicate (MAX_LEN - length indexed) (Some pad_idx)
                             else take MAX_LEN indexed)
              in (case tensor_long_list indexed of
                    Inl e \<Rightarrow> Inl e
                  | Inr example \<Rightarrow>
                     (case tensor_long label of
                        Inl e \<Rightarrow> Inl e
                      | Inr label \<Rightarrow>
                         (case tensor_long (int len) of
                            Inl e \<Rightarrow> Inl e
                          | Inr len \<Rightarrow> Inr (example, label, len)))))))"

text \<open>\<open>__len__\<close>.\<close>

definition len :: "SentenceDataset \<Rightarrow> nat" where
  "len self = length (data self)"

text \<open>The loop \<open>for i in range(5)\<close> at the end of \<open>__init__\<close> calls
  \<open>__getitem__\<close> and prints the result; an exception of the call leaves the loop
  and the constructor.\<close>

fun print_examples :: "SentenceDataset \<Rightarrow> int list \<Rightarrow> error + unit" where
  "print_examples self [] = Inr ()"
| "print_examples self (i # rest) =
     (case getitem self i of Inl e \<Rightarrow> Inl e | Inr _ \<Rightarrow> print_examples self rest)"

text \<open>\<open>__init__\<close>: every sentence is lower-cased and split at white space. The
  first loop prints at most ten tokenized sentences and cannot fail; the second one
  encodes the examples 0 to 4.\<close>

definition SentenceDataset_init ::
    "string list \<Rightarrow> int list \<Rightarrow> (string \<rightharpoonup> int) \<Rightarrow> error + SentenceDataset" where
  "SentenceDataset_init X y w2i =
     (let self = \<lparr>data = map (\<lambda>sentence. str_split (str_lower sentence)) X,
                  labels = y, word2idx = w2i\<rparr>
      in case print_examples self [0, 1, 2, 3, 4] of
           Inl e \<Rightarrow> Inl e
         | Inr _ \<Rightarrow> Inr self)"

subsection \<open>Derived notions used in the statements\<close>

text \<open>The list that \<open>__getitem__\<close> hands to \<open>torch.tensor\<close>: the looked-up
  tokens, cut at \<open>MAX_LEN\<close> and padded with 0. Both branches of the source's
  \<open>if\<close> are instances of it (lemma \<open>pad_or_truncate\<close>).\<close>

definition encode :: "(string \<rightharpoonup> int) \<Rightarrow> string list \<Rightarrow> int option list" where
  "encode w tokens =
     map (\<lambda>word. dict_get w word (w ''<unk>'')) (take MAX_LEN tokens)
       @ replicate (MAX_LEN - length tokens) (Some 0)"

text \<open>The index of a word when the vocabulary has the index \<open>unk\<close> for
  \<open>"<unk>"\<close>.\<close>

definition resolve :: "(string \<rightharpoonup> int) \<Rightarrow> int \<Rightarrow> string \<Rightarrow> int" where
  "resolve w unk word = (case w word of Some v \<Rightarrow> v | None \<Rightarrow> unk)"

subsection \<open>A concrete dataset\<close>

text \<open>The vocabulary of the specification's example, and the same vocabulary with an
  entry for \<open>"<unk>"\<close>, as \<open>load_word_vectors\<close> is said to guarantee.\<close>

definition spec_vocab :: "string \<rightharpoonup> int" where
  "spec_vocab = [''this'' \<mapsto> 5, ''is'' \<mapsto> 9, ''really'' \<mapsto> 41, ''simple'' \<mapsto> 12]"

definition unk_vocab :: "string \<rightharpoonup> int" where
  "unk_vocab = [''<unk>'' \<mapsto> 1, ''this'' \<mapsto> 5, ''is'' \<mapsto> 9, ''really'' \<mapsto> 41,
                ''simple'' \<mapsto> 12]"

definition example_X :: "string list" where
  "example_X = [''This movie is really SIMPLE but it is not bad'',
                ''this is really simple'', '''', ''Simple  is this '', ''really?'']"

definition example_y :: "int list" where
  "example_y = [1, 1, 0, 0, 1]"

definition long_tokens :: "string list" where
  "long_tokens = [''this'', ''movie'', ''is'', ''really'', ''simple'', ''but'', ''it'', ''is'',
                  ''not'', ''bad'']"

definition example_data :: "string list list" where
  "example_data =
     [long_tokens, [''this'', ''is'', ''really'', ''simple''], [],
      [''simple'', ''is'', ''this''], [''really?'']]"

definition example_dataset :: "SentenceDataset" where
  "example_dataset = \<lparr>data = example_data, labels = example_y, word2idx = unk_vocab\<rparr>"

text \<open>Five sentences whose words are all in the vocabulary of the specification's
  example, which has no \<open>"<unk>"\<close>.\<close>

definition spec_X :: "string list" where
  "spec_X = [''this is really simple'', ''Simple'', ''this is simple'', '''',
             ''really   really simple'']"

definition spec_data :: "string list list" where
  "spec_data =
     [[''this'', ''is'', ''really'', ''simple''], [''simple''],
      [''this'', ''is'', ''simple''], [], [''really'', ''really'', ''simple'']]"

definition spec_dataset :: "SentenceDataset" where
  "spec_dataset = \<lparr>data = spec_data, labels = example_y, word2idx = spec_vocab\<rparr>"

section \<open>attention.py: the attention models\<close>

text \<open>
  The models are compositions of calls into the tensor library. The library is a
  parameter of every definition below: a record of its operations over a type \<open>'t\<close>
  of tensors. The numbers in a tensor are floating-point values and stay inside
  \<open>'t\<close>; what the definitions fix is which operations are called, on what, and in
  which order. An operation that can raise returns an option, and \<open>None\<close> is the
  exception.
\<close>

subsection \<open>The tensor library as a parameter\<close>

record 't torch =
  t_shape :: "'t \<Rightarrow> nat list"
  F_linear :: "'t \<Rightarrow> 't \<Rightarrow> 't option \<Rightarrow> 't option"
  torch_matmul :: "'t \<Rightarrow> 't \<Rightarrow> 't option"
  t_transpose :: "'t \<Rightarrow> 't option"
  t_mul :: "'t \<Rightarrow> real \<Rightarrow> 't"
  F_softmax :: "'t \<Rightarrow> 't"
  F_dropout :: "'t \<Rightarrow> real \<Rightarrow> bool \<Rightarrow> 't"
  F_relu :: "'t \<Rightarrow> 't"
  t_add :: "'t \<Rightarrow> 't \<Rightarrow> 't option"
  F_embedding :: "'t \<Rightarrow> 't \<Rightarrow> 't option"
  torch_arange :: "nat \<Rightarrow> 't"
  F_layer_norm :: "'t \<Rightarrow> nat list \<Rightarrow> 't \<Rightarrow> 't \<Rightarrow> real \<Rightarrow> 't option"
  t_mean :: "'t \<Rightarrow> 't option"
  torch_cat :: "'t list \<Rightarrow> 't option"
  t_squeeze :: "'t \<Rightarrow> 't option"

text \<open>
  \<open>t_shape x\<close> is \<open>x.shape\<close>; \<open>F_linear x w b\<close> is \<open>F.linear(x, w, b)\<close>;
  \<open>torch_matmul a b\<close> is \<open>a @ b\<close>; \<open>t_transpose x\<close> is \<open>x.transpose(-2, -1)\<close>;
  \<open>t_mul x c\<close> is \<open>x * c\<close> for a Python float \<open>c\<close>; \<open>F_softmax x\<close> is
  \<open>F.softmax(x, dim=-1)\<close>; \<open>F_dropout x p training\<close> is
  \<open>F.dropout(x, p, training)\<close>; \<open>t_add a b\<close> is \<open>a + b\<close>; \<open>F_embedding i w\<close>
  is \<open>F.embedding(i, w)\<close>; \<open>F_layer_norm x shape w b eps\<close> is \<open>F.layer_norm\<close>;
  \<open>t_mean x\<close> is \<open>x.mean(dim=1)\<close>; \<open>torch_cat xs\<close> is \<open>torch.cat(xs, dim=-1)\<close>;
  \<open>t_squeeze x\<close> is \<open>x.squeeze(1)\<close>.

  Dropout is the one operation that draws random numbers, in training mode and for a
  probability above 0. \<open>F_dropout\<close> stands for the operation with the numbers it
  draws, so two calls are compared under the same draws. Every constructor of the
  repository builds its dropout layers with the default probability 0.
\<close>

subsection \<open>The layers of \<open>torch.nn\<close> the models are built from\<close>

record 't Linear =
  weight :: 't
  bias :: "'t option"

record 't LayerNorm =
  normalized_shape :: "nat list"
  ln_weight :: 't
  ln_bias :: 't
  eps :: real

record Dropout =
  drop_p :: real
  drop_training :: bool

definition Linear_forward :: "'t torch \<Rightarrow> 't Linear \<Rightarrow> 't \<Rightarrow> 't option" where
  "Linear_forward T self x = F_linear T x (weight self) (bias self)"

definition LayerNorm_forward :: "'t torch \<Rightarrow> 't LayerNorm \<Rightarrow> 't \<Rightarrow> 't option" where
  "LayerNorm_forward T self x =
     F_layer_norm T x (normalized_shape self) (ln_weight self) (ln_bias self) (eps self)"

definition Dropout_forward :: "'t torch \<Rightarrow> Dropout \<Rightarrow> 't \<Rightarrow> 't" where
  "Dropout_forward T self x = F_dropout T x (drop_p self) (drop_training self)"

text \<open>\<open>C ** -0.5\<close> for a Python integer \<open>C\<close> that is a dimension of a shape: a
  float, here the real number it stands for; \<open>0 ** -0.5\<close> raises
  \<open>ZeroDivisionError\<close>.\<close>

definition pow_neg_half :: "nat \<Rightarrow> real option" where
  "pow_neg_half C = (if C = 0 then None else Some (real C powr (- (1 / 2))))"

subsection \<open>Head\<close>

record 't Head =
  head_key :: "'t Linear"
  head_query :: "'t Linear"
  head_value :: "'t Linear"
  head_dropout :: Dropout

definition Head_forward :: "'t torch \<Rightarrow> 't Head \<Rightarrow> 't \<Rightarrow> 't option" where
  "Head_forward T self x =
     (case t_shape T x of
        [B, Tn, C] \<Rightarrow>
          do {
            k \<leftarrow> Linear_forward T (head_key self) x;
            q \<leftarrow> Linear_forward T (head_query self) x;
            kt \<leftarrow> t_transpose T k;
            qk \<leftarrow> torch_matmul T q kt;
            c \<leftarrow> pow_neg_half C;
            let wei = t_mul T qk c;
            let wei = F_softmax T wei;
            let wei = Dropout_forward T (head_dropout self) wei;
            v \<leftarrow> Linear_forward T (head_value self) x;
            torch_matmul T wei v
          }
      | _ \<Rightarrow> None)"

subsection \<open>FeedFoward\<close>

text \<open>\<open>self.net\<close> is \<open>nn.Sequential(Linear, ReLU, Linear, Dropout)\<close>; the fields
  are its entries 0, 2 and 3 (the ReLU has no state).\<close>

record 't FeedFoward =
  net_0 :: "'t Linear"
  net_2 :: "'t Linear"
  net_3 :: Dropout

definition FeedFoward_forward :: "'t torch \<Rightarrow> 't FeedFoward \<Rightarrow> 't \<Rightarrow> 't option" where
  "FeedFoward_forward T self x =
     do {
       a \<leftarrow> Linear_forward T (net_0 self) x;
       let b = F_relu T a;
       c \<leftarrow> Linear_forward T (net_2 self) b;
       Some (Dropout_forward T (net_3 self) c)
     }"

subsection \<open>MultiHeadAttention\<close>

record 't MultiHeadAttention =
  heads :: "'t Head list"
  proj :: "'t Linear"
  mha_dropout :: Dropout

definition MultiHeadAttention_forward ::
    "'t torch \<Rightarrow> 't MultiHeadAttention \<Rightarrow> 't \<Rightarrow> 't option" where
  "MultiHeadAttention_forward T self x =
     do {
       hs \<leftarrow> those (map (\<lambda>h. Head_forward T h x) (heads self));
       out \<leftarrow> torch_cat T hs;
       out \<leftarrow> Linear_forward T (proj self) out;
       Some (Dropout_forward T (mha_dropout self) out)
     }"

subsection \<open>Block\<close>

record 't Block =
  blk_sa :: "'t MultiHeadAttention"
  blk_ffwd :: "'t FeedFoward"
  blk_ln1 :: "'t LayerNorm"
  blk_ln2 :: "'t LayerNorm"

definition Block_forward :: "'t torch \<Rightarrow> 't Block \<Rightarrow> 't \<Rightarrow> 't option" where
  "Block_forward T self x =
     do {
       n1 \<leftarrow> LayerNorm_forward T (blk_ln1 self) x;
       a \<leftarrow> MultiHeadAttention_forward T (blk_sa self) n1;
       x \<leftarrow> t_add T x a;
       n2 \<leftarrow> LayerNorm_forward T (blk_ln2 self) x;
       f \<leftarrow> FeedFoward_forward T (blk_ffwd self) n2;
       t_add T x f
     }"

text \<open>\<open>nn.Sequential(*blocks)\<close>: the blocks one after the other.\<close>

fun Sequential_forward :: "'t torch \<Rightarrow> 't Block list \<Rightarrow> 't \<Rightarrow> 't option" where
  "Sequential_forward T [] x = Some x"
| "Sequential_forward T (b # bs) x =
     do { y \<leftarrow> Block_forward T b x; Sequential_forward T bs y }"

subsection \<open>SimpleSelfAttentionModel\<close>

record 't SimpleSelfAttentionModel =
  ssa_n_head :: nat
  ssa_max_length :: nat
  ssa_token_embedding_table :: 't
  ssa_position_embedding_table :: 't
  ssa_sa :: "'t Head"
  ssa_ffwd :: "'t FeedFoward"
  ssa_ln1 :: "'t LayerNorm"
  ssa_ln2 :: "'t LayerNorm"
  ssa_output_size :: nat
  ssa_output :: "'t Linear"

definition SimpleSelfAttentionModel_forward ::
    "'t torch \<Rightarrow> 't SimpleSelfAttentionModel \<Rightarrow> 't \<Rightarrow> 't option" where
  "SimpleSelfAttentionModel_forward T self x =
     (case t_shape T x of
        [B, Tn] \<Rightarrow>
          do {
            tok_emb \<leftarrow> F_embedding T x (ssa_token_embedding_table self);
            pos_emb \<leftarrow> F_embedding T (torch_arange T Tn) (ssa_position_embedding_table self);
            x \<leftarrow> t_add T tok_emb pos_emb;
            n1 \<leftarrow> LayerNorm_forward T (ssa_ln1 self) x;
            a \<leftarrow> Head_forward T (ssa_sa self) n1;
            x \<leftarrow> t_add T x a;
            n2 \<leftarrow> LayerNorm_forward T (ssa_ln2 self) x;
            f \<leftarrow> FeedFoward_forward T (ssa_ffwd self) n2;
            x \<leftarrow> t_add T x f;
            x \<leftarrow> t_mean T x;
            logits \<leftarrow> Linear_forward T (ssa_output self) x;
            if ssa_output_size self = 1 then t_squeeze T logits else Some logits
          }
      | _ \<Rightarrow> None)"

subsection \<open>MultiHeadAttentionModel\<close>

record 't MultiHeadAttentionModel =
  mhm_n_head :: nat
  mhm_max_length :: nat
  mhm_token_embedding_table :: 't
  mhm_position_embedding_table :: 't
  mhm_sa :: "'t MultiHeadAttention"
  mhm_ffwd :: "'t FeedFoward"
  mhm_ln1 :: "'t LayerNorm"
  mhm_ln2 :: "'t LayerNorm"
  mhm_output_size :: nat
  mhm_output :: "'t Linear"

text \<open>\<open>forward(self, x, lengths=None)\<close>: the third argument is an option, \<open>None\<close>
  for the default.\<close>

definition MultiHeadAttentionModel_forward ::
    "'t torch \<Rightarrow> 't MultiHeadAttentionModel \<Rightarrow> 't \<Rightarrow> 'l option \<Rightarrow> 't option" where
  "MultiHeadAttentionModel_forward T self x lengths =
     (case t_shape T x of
        [B, Tn] \<Rightarrow>
          do {
            tok_emb \<leftarrow> F_embedding T x (mhm_token_embedding_table self);
            pos_emb \<leftarrow> F_embedding T (torch_arange T Tn) (mhm_position_embedding_table self);
            x \<leftarrow> t_add T tok_emb pos_emb;
            n1 \<leftarrow> LayerNorm_forward T (mhm_ln1 self) x;
            a \<leftarrow> MultiHeadAttention_forward T (mhm_sa self) n1;
            x \<leftarrow> t_add T x a;
            n2 \<leftarrow> LayerNorm_forward T (mhm_ln2 self) x;
            f \<leftarrow> FeedFoward_forward T (mhm_ffwd self) n2;
            x \<leftarrow> t_add T x f;
            x \<leftarrow> t_mean T x;
            logits \<leftarrow> Linear_forward T (mhm_output self) x;
            if mhm_output_size self = 1 then t_squeeze T logits else Some logits
          }
      | _ \<Rightarrow> None)"

subsection \<open>TransformerEncoderModel\<close>

record 't TransformerEncoderModel =
  tem_n_head :: nat
  tem_max_length :: nat
  tem_emb_dim :: nat
  tem_token_embedding_table :: 't
  tem_position_embedding_table :: 't
  tem_blocks :: "'t Block list"
  tem_ln_f :: "'t LayerNorm"
  tem_output_size :: nat
  tem_output :: "'t Linear"

definition TransformerEncoderModel_forward ::
    "'t torch \<Rightarrow> 't TransformerEncoderModel \<Rightarrow> 't \<Rightarrow> 't option" where
  "TransformerEncoderModel_forward T self x =
     (case t_shape T x of
        [B, Tn] \<Rightarrow>
          do {
            tok_emb \<leftarrow> F_embedding T x (tem_token_embedding_table self);
            pos_emb \<leftarrow> F_embedding T (torch_arange T Tn) (tem_position_embedding_table self);
            x \<leftarrow> t_add T tok_emb pos_emb;
            x \<leftarrow> Sequential_forward T (tem_blocks self) x;
            x \<leftarrow> LayerNorm_forward T (tem_ln_f self) x;
            x \<leftarrow> t_mean T x;
            logits \<leftarrow> Linear_forward T (tem_output self) x;
            if tem_output_size self = 1 then t_squeeze T logits else Some logits
          }
      | _ \<Rightarrow> None)"

subsection \<open>The specification's words for the attention head and the block\<close>

text \<open>
  Section 4.2 of the specification: pairwise scores are the scaled dot product of query
  and key; a row-wise softmax gives the attention weights; dropout is applied to the
  weights; the output is the weighted sum of the value vectors. The definition follows
  these words, for a given scale and a given dropout layer.
\<close>

definition scaled_dot_product_attention ::
    "'t torch \<Rightarrow> real \<Rightarrow> ('t \<Rightarrow> 't) \<Rightarrow> 't \<Rightarrow> 't \<Rightarrow> 't \<Rightarrow> 't option" where
  "scaled_dot_product_attention T scale dropout q k v =
     do {
       kt \<leftarrow> t_transpose T k;
       scores \<leftarrow> torch_matmul T q kt;
       let weights = F_softmax T (t_mul T scores scale);
       torch_matmul T (dropout weights) v
     }"

text \<open>
  Section 4.5 of the specification: \<open>x = x + sublayer(norm(x))\<close>, the normalization
  before the sub-layer and nothing after the sum.
\<close>

definition pre_norm_residual ::
    "'t torch \<Rightarrow> ('t \<Rightarrow> 't option) \<Rightarrow> ('t \<Rightarrow> 't option) \<Rightarrow> 't \<Rightarrow> 't option" where
  "pre_norm_residual T layer_norm sublayer x =
     do {
       n \<leftarrow> layer_norm x;
       y \<leftarrow> sublayer n;
       t_add T x y
     }"

section \<open>The shapes the library computes\<close>

text \<open>
  What a call of the library returns has a shape that depends on the shapes of the
  arguments only, and the call raises when the shapes do not fit. A meta tensor keeps
  that part of a tensor: its shape and, for a tensor of indices (dtype long, entries
  taken as natural numbers), the least number above all its entries, 0 when it has
  none. A float tensor has no such bound. The models pass index tensors to the
  embedding lookups only, so every other result is a float tensor.
\<close>

record meta =
  dims :: "nat list"
  ubound :: "nat option"

definition meta_float :: "nat list \<Rightarrow> meta" where
  "meta_float s = \<lparr>dims = s, ubound = None\<rparr>"

definition meta_long :: "nat list \<Rightarrow> nat \<Rightarrow> meta" where
  "meta_long s b = \<lparr>dims = s, ubound = Some b\<rparr>"

subsection \<open>Shape rules\<close>

text \<open>Broadcasting: the shapes are aligned at their last dimension; two sizes fit when
  they are equal or one of them is 1. The lists are the reversed shapes.\<close>

fun broadcast_rev :: "nat list \<Rightarrow> nat list \<Rightarrow> nat list option" where
  "broadcast_rev [] ys = Some ys"
| "broadcast_rev (x # xs) [] = Some (x # xs)"
| "broadcast_rev (x # xs) (y # ys) =
     (if x = y \<or> y = 1 then map_option ((#) x) (broadcast_rev xs ys)
      else if x = 1 then map_option ((#) y) (broadcast_rev xs ys)
      else None)"

definition broadcast_shapes :: "nat list \<Rightarrow> nat list \<Rightarrow> nat list option" where
  "broadcast_shapes a b = map_option rev (broadcast_rev (rev a) (rev b))"

text \<open>\<open>F.linear\<close> with the weight of an \<open>nn.Linear\<close>, of shape (out, in): the input
  has at least one dimension and its last one is \<open>in\<close>; the bias, when there is one,
  has shape (out).\<close>

definition linear_shape :: "nat list \<Rightarrow> nat list \<Rightarrow> nat list option \<Rightarrow> nat list option" where
  "linear_shape x w b =
     (case w of
        [out_features, in_features] \<Rightarrow>
          if x \<noteq> [] \<and> last x = in_features
             \<and> (case b of None \<Rightarrow> True | Some bs \<Rightarrow> bs = [out_features])
          then Some (butlast x @ [out_features])
          else None
      | _ \<Rightarrow> None)"

text \<open>\<open>torch.matmul\<close>: a one-dimensional operand is a row on the left and a column on
  the right, and the dimension added for it is removed from the result; the inner sizes
  agree; the dimensions before the last two are broadcast. A tensor with no dimension
  is refused.\<close>

definition matmul_shape :: "nat list \<Rightarrow> nat list \<Rightarrow> nat list option" where
  "matmul_shape a b =
     (if a = [] \<or> b = [] then None
      else
        let a2 = (if length a = 1 then 1 # a else a);
            b2 = (if length b = 1 then b @ [1] else b);
            n = last (butlast a2); m = last a2;
            m' = last (butlast b2); p = last b2
        in if m = m'
           then map_option
                  (\<lambda>batch. batch @ (if length a = 1 then [] else [n])
                                 @ (if length b = 1 then [] else [p]))
                  (broadcast_shapes (butlast (butlast a2)) (butlast (butlast b2)))
           else None)"

text \<open>\<open>x.transpose(-2, -1)\<close>: the last two dimensions change places; with fewer than
  two dimensions, -2 is out of range.\<close>

definition transpose_shape :: "nat list \<Rightarrow> nat list option" where
  "transpose_shape s =
     (if length s < 2 then None
      else Some (butlast (butlast s) @ [last s, last (butlast s)]))"

text \<open>\<open>F.layer_norm\<close>: the normalized shape is the end of the input's shape, and the
  shape of the weight and of the bias.\<close>

definition layer_norm_shape ::
    "nat list \<Rightarrow> nat list \<Rightarrow> nat list \<Rightarrow> nat list \<Rightarrow> nat list option" where
  "layer_norm_shape x ns w b =
     (if length ns \<le> length x \<and> drop (length x - length ns) x = ns \<and> w = ns \<and> b = ns
      then Some x else None)"

text \<open>\<open>x.mean(dim=1)\<close>: dimension 1 is removed; it has to exist.\<close>

definition mean_shape :: "nat list \<Rightarrow> nat list option" where
  "mean_shape s = (if length s < 2 then None else Some (take 1 s @ drop 2 s))"

text \<open>\<open>torch.cat(xs, dim=-1)\<close>: the list is not empty; tensors of shape (0) are
  skipped; the others have at least one dimension and agree on all but the last one,
  and their last sizes add up.\<close>

definition cat_shape :: "nat list list \<Rightarrow> nat list option" where
  "cat_shape xs =
     (case filter (\<lambda>s. s \<noteq> [0]) xs of
        [] \<Rightarrow> (if xs = [] then None else Some [0])
      | y # ys \<Rightarrow>
          if list_all (\<lambda>s. s \<noteq> [] \<and> butlast s = butlast y) (y # ys)
          then Some (butlast y @ [sum_list (map last (y # ys))])
          else None)"

text \<open>\<open>x.squeeze(1)\<close>: dimension 1 is removed when its size is 1 and kept otherwise;
  it has to exist.\<close>

definition squeeze_shape :: "nat list \<Rightarrow> nat list option" where
  "squeeze_shape s =
     (if length s < 2 then None
      else if s ! 1 = 1 then Some (take 1 s @ drop 2 s) else Some s)"

text \<open>\<open>F.embedding\<close>: the table has two dimensions, the indices are a long tensor with
  every entry below the number of rows (else \<open>IndexError\<close>); each index becomes a
  row.\<close>

definition embedding_meta :: "meta \<Rightarrow> meta \<Rightarrow> meta option" where
  "embedding_meta i w =
     (case ubound i of
        None \<Rightarrow> None
      | Some b \<Rightarrow>
         (case dims w of
            [num_embeddings, embedding_dim] \<Rightarrow>
              if b \<le> num_embeddings then Some (meta_float (dims i @ [embedding_dim]))
              else None
          | _ \<Rightarrow> None))"

subsection \<open>The library on meta tensors\<close>

definition meta_torch :: "meta torch" where
  "meta_torch =
     \<lparr>t_shape = dims,
      F_linear = (\<lambda>x w b.
        map_option meta_float (linear_shape (dims x) (dims w) (map_option dims b))),
      torch_matmul = (\<lambda>a b. map_option meta_float (matmul_shape (dims a) (dims b))),
      t_transpose = (\<lambda>x. map_option meta_float (transpose_shape (dims x))),
      t_mul = (\<lambda>x c. meta_float (dims x)),
      F_softmax = (\<lambda>x. meta_float (dims x)),
      F_dropout = (\<lambda>x p training. meta_float (dims x)),
      F_relu = (\<lambda>x. meta_float (dims x)),
      t_add = (\<lambda>a b. map_option meta_float (broadcast_shapes (dims a) (dims b))),
      F_embedding = embedding_meta,
      torch_arange = (\<lambda>n. meta_long [n] n),
      F_layer_norm = (\<lambda>x ns w b e.
        map_option meta_float (layer_norm_shape (dims x) ns (dims w) (dims b))),
      t_mean = (\<lambda>x. map_option meta_float (mean_shape (dims x))),
      torch_cat = (\<lambda>xs. map_option meta_float (cat_shape (map dims xs))),
      t_squeeze = (\<lambda>x. map_option meta_float (squeeze_shape (dims x)))\<rparr>"

subsection \<open>The constructors, on meta tensors\<close>

text \<open>The constructors draw the parameters at random; the shapes of the parameters
  are fixed by the arguments. A module is in training mode when it is built.\<close>

definition Linear_init :: "nat \<Rightarrow> nat \<Rightarrow> bool \<Rightarrow> meta Linear" where
  "Linear_init in_features out_features with_bias =
     \<lparr>weight = meta_float [out_features, in_features],
      bias = (if with_bias then Some (meta_float [out_features]) else None)\<rparr>"

definition LayerNorm_init :: "nat \<Rightarrow> meta LayerNorm" where
  "LayerNorm_init n =
     \<lparr>normalized_shape = [n], ln_weight = meta_float [n], ln_bias = meta_float [n],
      eps = 1 / 100000\<rparr>"

text \<open>\<open>nn.Dropout(p)\<close> raises \<open>ValueError\<close> for a probability outside [0, 1].\<close>

definition Dropout_init :: "real \<Rightarrow> Dropout option" where
  "Dropout_init p =
     (if p < 0 \<or> 1 < p then None else Some \<lparr>drop_p = p, drop_training = True\<rparr>)"

text \<open>\<open>a // b\<close> on natural numbers; division by zero raises.\<close>

definition floordiv :: "nat \<Rightarrow> nat \<Rightarrow> nat option" where
  "floordiv a b = (if b = 0 then None else Some (a div b))"

definition Head_init :: "nat \<Rightarrow> nat \<Rightarrow> real \<Rightarrow> meta Head option" where
  "Head_init head_size n_embd dropout =
     do {
       d \<leftarrow> Dropout_init dropout;
       Some \<lparr>head_key = Linear_init n_embd head_size False,
             head_query = Linear_init n_embd head_size False,
             head_value = Linear_init n_embd head_size False,
             head_dropout = d\<rparr>
     }"

definition FeedFoward_init :: "nat \<Rightarrow> real \<Rightarrow> meta FeedFoward option" where
  "FeedFoward_init n_embd dropout =
     do {
       d \<leftarrow> Dropout_init dropout;
       Some \<lparr>net_0 = Linear_init n_embd (4 * n_embd) True,
             net_2 = Linear_init (4 * n_embd) n_embd True,
             net_3 = d\<rparr>
     }"

text \<open>The heads are built as \<open>Head(head_size, n_embd)\<close>, with the default dropout 0.\<close>

definition MultiHeadAttention_init ::
    "nat \<Rightarrow> nat \<Rightarrow> nat \<Rightarrow> real \<Rightarrow> meta MultiHeadAttention option" where
  "MultiHeadAttention_init num_heads head_size n_embd dropout =
     do {
       hs \<leftarrow> those (replicate num_heads (Head_init head_size n_embd 0));
       d \<leftarrow> Dropout_init dropout;
       Some \<lparr>heads = hs,
             proj = Linear_init (head_size * num_heads) n_embd True,
             mha_dropout = d\<rparr>
     }"

text \<open>\<open>Block.__init__\<close> computes the head size itself and ignores the one it is
  given.\<close>

definition Block_init :: "nat \<Rightarrow> nat \<Rightarrow> nat \<Rightarrow> meta Block option" where
  "Block_init n_head head_size n_embd =
     do {
       head_size \<leftarrow> floordiv n_embd n_head;
       sa \<leftarrow> MultiHeadAttention_init n_head head_size n_embd 0;
       ffwd \<leftarrow> FeedFoward_init n_embd 0;
       Some \<lparr>blk_sa = sa, blk_ffwd = ffwd,
             blk_ln1 = LayerNorm_init n_embd, blk_ln2 = LayerNorm_init n_embd\<rparr>
     }"

text \<open>The argument \<open>embeddings\<close> is given by the shape of \<open>np.array(embeddings)\<close>;
  \<open>num_embeddings, dim = embeddings.shape\<close> raises unless it has two dimensions.\<close>

definition SimpleSelfAttentionModel_init ::
    "nat \<Rightarrow> nat list \<Rightarrow> nat \<Rightarrow> meta SimpleSelfAttentionModel option" where
  "SimpleSelfAttentionModel_init output_size embeddings max_length =
     (case embeddings of
        [num_embeddings, dim'] \<Rightarrow>
          do {
            head_size \<leftarrow> floordiv dim' 1;
            sa \<leftarrow> Head_init head_size dim' 0;
            ffwd \<leftarrow> FeedFoward_init dim' 0;
            Some \<lparr>ssa_n_head = 1, ssa_max_length = max_length,
                  ssa_token_embedding_table = meta_float [num_embeddings, dim'],
                  ssa_position_embedding_table = meta_float [max_length, dim'],
                  ssa_sa = sa, ssa_ffwd = ffwd,
                  ssa_ln1 = LayerNorm_init dim', ssa_ln2 = LayerNorm_init dim',
                  ssa_output_size = output_size,
                  ssa_output = Linear_init dim' output_size True\<rparr>
          }
      | _ \<Rightarrow> None)"

definition MultiHeadAttentionModel_init ::
    "nat \<Rightarrow> nat list \<Rightarrow> nat \<Rightarrow> nat \<Rightarrow> meta MultiHeadAttentionModel option" where
  "MultiHeadAttentionModel_init output_size embeddings max_length n_head =
     (case embeddings of
        [num_embeddings, dim'] \<Rightarrow>
          do {
            head_size \<leftarrow> floordiv dim' n_head;
            sa \<leftarrow> MultiHeadAttention_init n_head head_size dim' 0;
            ffwd \<leftarrow> FeedFoward_init dim' 0;
            Some \<lparr>mhm_n_head = n_head, mhm_max_length = max_length,
                  mhm_token_embedding_table = meta_float [num_embeddings, dim'],
                  mhm_position_embedding_table = meta_float [max_length, dim'],
                  mhm_sa = sa, mhm_ffwd = ffwd,
                  mhm_ln1 = LayerNorm_init dim', mhm_ln2 = LayerNorm_init dim',
                  mhm_output_size = output_size,
                  mhm_output = Linear_init dim' output_size True\<rparr>
          }
      | _ \<Rightarrow> None)"

definition TransformerEncoderModel_init ::
    "nat \<Rightarrow> nat list \<Rightarrow> nat \<Rightarrow> nat \<Rightarrow> nat \<Rightarrow> meta TransformerEncoderModel option" where
  "TransformerEncoderModel_init output_size embeddings max_length n_head n_layer =
     (case embeddings of
        [num_embeddings, dim'] \<Rightarrow>
          do {
            head_size \<leftarrow> floordiv dim' n_head;
            blocks \<leftarrow> those (replicate n_layer (Block_init n_head head_size dim'));
            Some \<lparr>tem_n_head = n_head, tem_max_length = max_length, tem_emb_dim = dim',
                  tem_token_embedding_table = meta_float [num_embeddings, dim'],
                  tem_position_embedding_table = meta_float [max_length, dim'],
                  tem_blocks = blocks, tem_ln_f = LayerNorm_init dim',
                  tem_output_size = output_size,
                  tem_output = Linear_init dim' output_size True\<rparr>
          }
      | _ \<Rightarrow> None)"

subsection \<open>Concrete modules\<close>

text \<open>A head of size 16 on 50 channels, a block and a model with three heads on 6
  channels: what the constructors return, which the lemmas \<open>example_head_init\<close>,
  \<open>example_block_init\<close> and \<open>example_model_init\<close> state.\<close>

definition example_head :: "meta Head" where
  "example_head =
     \<lparr>head_key = Linear_init 50 16 False, head_query = Linear_init 50 16 False,
      head_value = Linear_init 50 16 False,
      head_dropout = \<lparr>drop_p = 0, drop_training = True\<rparr>\<rparr>"

definition example_feedfoward :: "meta FeedFoward" where
  "example_feedfoward =
     \<lparr>net_0 = Linear_init 6 24 True, net_2 = Linear_init 24 6 True,
      net_3 = \<lparr>drop_p = 0, drop_training = True\<rparr>\<rparr>"

definition example_attention :: "meta MultiHeadAttention" where
  "example_attention =
     \<lparr>heads = replicate 3
        \<lparr>head_key = Linear_init 6 2 False, head_query = Linear_init 6 2 False,
         head_value = Linear_init 6 2 False,
         head_dropout = \<lparr>drop_p = 0, drop_training = True\<rparr>\<rparr>,
      proj = Linear_init 6 6 True,
      mha_dropout = \<lparr>drop_p = 0, drop_training = True\<rparr>\<rparr>"

definition example_block :: "meta Block" where
  "example_block =
     \<lparr>blk_sa = example_attention, blk_ffwd = example_feedfoward,
      blk_ln1 = LayerNorm_init 6, blk_ln2 = LayerNorm_init 6\<rparr>"

definition example_model :: "meta MultiHeadAttentionModel" where
  "example_model =
     \<lparr>mhm_n_head = 3, mhm_max_length = 60,
      mhm_token_embedding_table = meta_float [10, 6],
      mhm_position_embedding_table = meta_float [60, 6],
      mhm_sa = example_attention, mhm_ffwd = example_feedfoward,
      mhm_ln1 = LayerNorm_init 6, mhm_ln2 = LayerNorm_init 6,
      mhm_output_size = 1, mhm_output = Linear_init 6 1 True\<rparr>"

section \<open>Properties of the sentence dataset\<close>

subsection \<open>What \<open>__getitem__\<close> returns\<close>

lemma tensor_long_list_Inr:
  "tensor_long_list vs = Inr ws \<longleftrightarrow> vs = map Some ws \<and> list_all in_long ws"
proof (induction vs arbitrary: ws)
  case Nil
  then show ?case by auto
next
  case (Cons v vs)
  show ?case
  proof (cases v)
    case None
    then show ?thesis by auto
  next
    case (Some a)
    then show ?thesis using Cons.IH
      by (cases ws) (auto split: sum.splits)
  qed
qed

lemma in_long_len: "in_long (int (min n MAX_LEN))"
  by (simp add: in_long_def MAX_LEN_def min_def)

lemma pad_or_truncate:
  "(if length xs < n then xs @ replicate (n - length xs) p else take n xs)
     = take n xs @ replicate (n - length xs) p"
  by simp

lemma getitem_encode:
  "getitem self index =
     (case py_index (data self) index of
        Inl e \<Rightarrow> Inl e
      | Inr tokens \<Rightarrow>
         (case py_index (labels self) index of
            Inl e \<Rightarrow> Inl e
          | Inr label \<Rightarrow>
             (case tensor_long_list (encode (word2idx self) tokens) of
                Inl e \<Rightarrow> Inl e
              | Inr example \<Rightarrow>
                  if in_long label
                  then Inr (example, label, int (min (length tokens) MAX_LEN))
                  else Inl TensorError)))"
  unfolding getitem_def Let_def pad_or_truncate encode_def
  by (simp add: tensor_long_def in_long_len take_map split: sum.splits)

lemma getitem_Inr:
  "getitem self index = Inr (example, label, cnt) \<longleftrightarrow>
     (\<exists>tokens. py_index (data self) index = Inr tokens \<and>
        py_index (labels self) index = Inr label \<and> in_long label \<and>
        cnt = int (min (length tokens) MAX_LEN) \<and>
        map Some example = encode (word2idx self) tokens \<and> list_all in_long example)"
proof -
  have *: "tensor_long_list (map Some example) = Inr example" if "list_all in_long example"
    using that by (simp add: tensor_long_list_Inr)
  show ?thesis
    unfolding getitem_encode
    by (auto simp: tensor_long_list_Inr * split: sum.splits dest: sym)
qed


lemma getitem_length:
  "getitem self index = Inr (example, label, cnt) \<Longrightarrow> length example = MAX_LEN"
proof -
  assume "getitem self index = Inr (example, label, cnt)"
  then obtain tokens where "map Some example = encode (word2idx self) tokens"
    by (auto simp: getitem_Inr)
  then have "length (map Some example) = length (encode (word2idx self) tokens)"
    by simp
  then show ?thesis
    by (simp add: encode_def)
qed

lemma encode_with_unk:
  assumes "w ''<unk>'' = Some unk"
  shows "encode w tokens =
           map Some (map (resolve w unk) (take MAX_LEN tokens)
                       @ replicate (MAX_LEN - length tokens) 0)"
  using assms by (simp add: encode_def dict_get_def resolve_def split: option.splits)

lemma in_long_0: "in_long 0"
  by (simp add: in_long_def)

lemma resolve_in_long:
  assumes "w ''<unk>'' = Some unk" and "\<forall>v \<in> ran w. in_long v"
  shows "in_long (resolve w unk word)"
  using assms by (auto simp: resolve_def ran_def split: option.splits)

lemma getitem_with_unk:
  assumes "py_index (data self) index = Inr tokens"
    and "py_index (labels self) index = Inr label"
    and "in_long label"
    and "word2idx self ''<unk>'' = Some unk"
    and "\<forall>v \<in> ran (word2idx self). in_long v"
  shows "getitem self index =
           Inr (map (resolve (word2idx self) unk) (take MAX_LEN tokens)
                  @ replicate (MAX_LEN - length tokens) 0,
                label, int (min (length tokens) MAX_LEN))"
proof -
  have "list_all in_long (map (resolve (word2idx self) unk) (take MAX_LEN tokens)
          @ replicate (MAX_LEN - length tokens) 0)"
    using resolve_in_long [of "word2idx self" unk, OF assms(4,5)]
    by (auto simp: list_all_iff in_long_0)
  then show ?thesis
    using assms(1-3) encode_with_unk [of "word2idx self" unk tokens, OF assms(4)]
    by (simp add: getitem_Inr)
qed

subsection \<open>The concrete datasets\<close>

lemma example_tokenized:
  "map (\<lambda>sentence. str_split (str_lower sentence)) example_X = example_data"
  by code_simp

lemma spec_tokenized:
  "map (\<lambda>sentence. str_split (str_lower sentence)) spec_X = spec_data"
  by code_simp

lemma example_prints: "print_examples example_dataset [0, 1, 2, 3, 4] = Inr ()"
  by code_simp

lemma spec_prints: "print_examples spec_dataset [0, 1, 2, 3, 4] = Inr ()"
  by code_simp

lemma example_init:
  "SentenceDataset_init example_X example_y unk_vocab = Inr example_dataset"
  unfolding SentenceDataset_init_def Let_def example_tokenized example_dataset_def [symmetric]
  by (simp only: example_prints sum.case)

lemma spec_init:
  "SentenceDataset_init spec_X example_y spec_vocab = Inr spec_dataset"
  unfolding SentenceDataset_init_def Let_def spec_tokenized spec_dataset_def [symmetric]
  by (simp only: spec_prints sum.case)

lemma ran_upd_bound:
  "\<forall>v \<in> ran m. P v \<Longrightarrow> P b \<Longrightarrow> \<forall>v \<in> ran (m(a \<mapsto> b)). P v"
  by (auto simp: ran_def split: if_splits)

lemma example_tokens: "py_index (data example_dataset) 0 = Inr long_tokens"
  by (simp add: py_index_def example_dataset_def example_data_def)

lemma example_label: "py_index (labels example_dataset) 0 = Inr 1"
  by (simp add: py_index_def example_dataset_def example_y_def)

lemma example_unk: "word2idx example_dataset ''<unk>'' = Some 1"
  by (simp add: example_dataset_def unk_vocab_def)

lemma example_ran: "\<forall>v \<in> ran (word2idx example_dataset). in_long v"
proof -
  have "\<forall>v \<in> ran unk_vocab. in_long v"
    unfolding unk_vocab_def
    by (intro ran_upd_bound) (simp_all add: in_long_def)
  then show ?thesis
    by (simp add: example_dataset_def)
qed

lemma in_long_1: "in_long 1"
  by (simp add: in_long_def)

lemma example_getitem_0:
  "getitem example_dataset 0 = Inr ([5, 1, 9, 41, 12, 1, 1, 9], 1, 8)"
  by code_simp

lemma example_getitem_1:
  "getitem example_dataset 1 = Inr ([5, 9, 41, 12, 0, 0, 0, 0], 1, 4)"
  by code_simp

lemma long_tokens_length: "length long_tokens = 10"
  by (simp add: long_tokens_def)

lemma spec_sentence_tokens:
  "str_split (str_lower ''this is really simple'') = [''this'', ''is'', ''really'', ''simple'']"
  by code_simp

lemma SentenceDataset_init_Inr:
  assumes "SentenceDataset_init X y w2i = Inr self"
  shows "self = \<lparr>data = map (\<lambda>sentence. str_split (str_lower sentence)) X,
                  labels = y, word2idx = w2i\<rparr>"
  using assms by (auto simp: SentenceDataset_init_def Let_def split: sum.splits)

lemma py_index_nat: "i < length xs \<Longrightarrow> py_index xs (int i) = Inr (xs ! i)"
  by (simp add: py_index_def)

subsection \<open>The claims about the dataset\<close>

text \<open>
  C1. For every sentence of the dataset (any list of tokens: empty, short, or longer
  than eight), \<open>__getitem__\<close> returns the token-id encoding of the sentence at the
  fixed length \<open>MAX_LEN = 8\<close>: the index of each of the first eight tokens (its own
  index in the vocabulary, or the index of \<open>"<unk>"\<close>), in order, followed by as
  many zeros as are missing to eight. So a sentence of fewer than eight tokens is
  encoded whole and padded with zeros, and a longer one is cut after its eighth token.
  The call returns when the index is one of the dataset and of the labels, the label
  fits a 64-bit tensor, and the vocabulary has an entry for \<open>"<unk>"\<close> and only
  64-bit indices. (Lemma \<open>getitem_length\<close> gives the length for every call that
  returns, whatever the vocabulary.)
\<close>

theorem getitem_fixed_length:
  assumes "py_index (data self) index = Inr tokens"
    and "py_index (labels self) index = Inr label"
    and "in_long label"
    and "word2idx self ''<unk>'' = Some unk"
    and "\<forall>v \<in> ran (word2idx self). in_long v"
  shows "\<exists>example cnt. getitem self index = Inr (example, label, cnt)
           \<and> length example = MAX_LEN
           \<and> example = map (resolve (word2idx self) unk) (take MAX_LEN tokens)
                         @ replicate (MAX_LEN - length tokens) 0
           \<and> (length tokens < MAX_LEN \<longrightarrow>
                 example = map (resolve (word2idx self) unk) tokens
                             @ replicate (MAX_LEN - length tokens) 0)
           \<and> (MAX_LEN \<le> length tokens \<longrightarrow>
                 example = map (resolve (word2idx self) unk) (take MAX_LEN tokens))"
proof -
  let ?example = "map (resolve (word2idx self) unk) (take MAX_LEN tokens)
                    @ replicate (MAX_LEN - length tokens) 0"
  have ret: "getitem self index
               = Inr (?example, label, int (min (length tokens) MAX_LEN))"
    using assms by (rule getitem_with_unk)
  have len: "length ?example = MAX_LEN"
    by simp
  have pad: "?example = map (resolve (word2idx self) unk) tokens
                          @ replicate (MAX_LEN - length tokens) 0"
    if "length tokens < MAX_LEN"
    using that by simp
  have cut: "?example = map (resolve (word2idx self) unk) (take MAX_LEN tokens)"
    if "MAX_LEN \<le> length tokens"
    using that by simp
  from ret len pad cut show ?thesis
    by blast
qed

theorem getitem_fixed_length_witness:
  "py_index (data example_dataset) 0 = Inr long_tokens
   \<and> length long_tokens = 10
   \<and> py_index (labels example_dataset) 0 = Inr 1
   \<and> in_long 1
   \<and> word2idx example_dataset ''<unk>'' = Some 1
   \<and> getitem example_dataset 0 = Inr ([5, 1, 9, 41, 12, 1, 1, 9], 1, 8)
   \<and> length [5, 1, 9, 41, 12, 1, 1, 9 :: int] = MAX_LEN
   \<and> [5, 1, 9, 41, 12, 1, 1, 9]
        = map (resolve (word2idx example_dataset) 1) (take MAX_LEN long_tokens)
   \<and> py_index (data example_dataset) 1 = Inr [''this'', ''is'', ''really'', ''simple'']
   \<and> py_index (labels example_dataset) 1 = Inr 1
   \<and> getitem example_dataset 1 = Inr ([5, 9, 41, 12, 0, 0, 0, 0], 1, 4)
   \<and> length [5, 9, 41, 12, 0, 0, 0, 0 :: int] = MAX_LEN
   \<and> [5, 9, 41, 12, 0, 0, 0, 0]
        = map (resolve (word2idx example_dataset) 1) [''this'', ''is'', ''really'', ''simple'']
            @ replicate (MAX_LEN - 4) 0"
proof -
  have t1: "py_index (data example_dataset) 1 = Inr [''this'', ''is'', ''really'', ''simple'']"
    by (simp add: py_index_def example_dataset_def example_data_def)
  have l1: "py_index (labels example_dataset) 1 = Inr 1"
    by (simp add: py_index_def example_dataset_def example_y_def)
  have long: "MAX_LEN \<le> length long_tokens"
    by (simp add: MAX_LEN_def long_tokens_length)
  have short: "length [''this'', ''is'', ''really'', ''simple''] < MAX_LEN"
    by (simp add: MAX_LEN_def)
  from getitem_fixed_length [OF example_tokens example_label in_long_1 example_unk example_ran]
  obtain example0 cnt0
    where "getitem example_dataset 0 = Inr (example0, 1, cnt0)"
      and "length example0 = MAX_LEN"
      and "MAX_LEN \<le> length long_tokens \<longrightarrow>
             example0 = map (resolve (word2idx example_dataset) 1) (take MAX_LEN long_tokens)"
    by blast
  with example_getitem_0 long
  have cut: "length [5, 1, 9, 41, 12, 1, 1, 9 :: int] = MAX_LEN"
    "[5, 1, 9, 41, 12, 1, 1, 9]
       = map (resolve (word2idx example_dataset) 1) (take MAX_LEN long_tokens)"
    by auto
  from getitem_fixed_length [OF t1 l1 in_long_1 example_unk example_ran]
  obtain example1 cnt1
    where "getitem example_dataset 1 = Inr (example1, 1, cnt1)"
      and "length example1 = MAX_LEN"
      and "length [''this'', ''is'', ''really'', ''simple''] < MAX_LEN \<longrightarrow>
             example1 = map (resolve (word2idx example_dataset) 1)
                          [''this'', ''is'', ''really'', ''simple'']
                        @ replicate (MAX_LEN - length [''this'', ''is'', ''really'', ''simple'']) 0"
    by blast
  with example_getitem_1 short
  have pad: "length [5, 9, 41, 12, 0, 0, 0, 0 :: int] = MAX_LEN"
    "[5, 9, 41, 12, 0, 0, 0, 0]
       = map (resolve (word2idx example_dataset) 1) [''this'', ''is'', ''really'', ''simple'']
           @ replicate (MAX_LEN - 4) 0"
    by auto
  from example_tokens long_tokens_length example_label in_long_1 example_unk
    example_getitem_0 cut t1 l1 example_getitem_1 pad
  show ?thesis
    by (intro conjI)
qed

text \<open>
  C2, as amended. The third component \<open>__getitem__\<close> returns is the number of tokens
  of the sentence capped at \<open>MAX_LEN\<close>: \<open>min(len(tokens), 8)\<close>. It is the true token
  count only for sentences of at most eight tokens.
\<close>

theorem getitem_returned_length:
  assumes "getitem self index = Inr (example, label, cnt)"
    and "py_index (data self) index = Inr tokens"
  shows "cnt = int (min (length tokens) MAX_LEN)"
  using assms by (auto simp: getitem_Inr)

theorem getitem_returned_length_witness:
  "getitem example_dataset 1 = Inr ([5, 9, 41, 12, 0, 0, 0, 0], 1, 4)
   \<and> py_index (data example_dataset) 1 = Inr [''this'', ''is'', ''really'', ''simple'']
   \<and> int (min (length [''this'', ''is'', ''really'', ''simple'']) MAX_LEN) = 4"
proof -
  have t: "py_index (data example_dataset) 1 = Inr [''this'', ''is'', ''really'', ''simple'']"
    by (simp add: py_index_def example_dataset_def example_data_def)
  show ?thesis
    using example_getitem_1 t getitem_returned_length [OF example_getitem_1 t, symmetric]
    by (simp only: simp_thms)
qed

text \<open>
  C2 as stated fails: the first sentence of the dataset that \<open>__init__\<close> builds from
  \<open>example_X\<close> has ten tokens, and \<open>__getitem__\<close> returns the length 8 for it.
\<close>

theorem getitem_true_count_counterexample:
  "SentenceDataset_init example_X example_y unk_vocab = Inr example_dataset
   \<and> py_index (data example_dataset) 0 = Inr long_tokens
   \<and> length long_tokens = 10
   \<and> getitem example_dataset 0 = Inr ([5, 1, 9, 41, 12, 1, 1, 9], 1, 8)
   \<and> (8::int) \<noteq> int (length long_tokens)"
  using example_init example_tokens long_tokens_length example_getitem_0 by simp

text \<open>
  C7. When the vocabulary has an entry for \<open>"<unk>"\<close>, \<open>__getitem__\<close> returns for
  every sentence, and every token of the first \<open>MAX_LEN\<close> that is not a key of the
  vocabulary is encoded as the index of \<open>"<unk>"\<close>: a token outside the vocabulary
  never makes the lookup fail.
\<close>

theorem getitem_unknown_token:
  assumes "py_index (data self) index = Inr tokens"
    and "py_index (labels self) index = Inr label"
    and "in_long label"
    and "word2idx self ''<unk>'' = Some unk"
    and "\<forall>v \<in> ran (word2idx self). in_long v"
  shows "\<exists>example cnt. getitem self index = Inr (example, label, cnt)
           \<and> (\<forall>i. i < length tokens \<and> i < MAX_LEN \<and> word2idx self (tokens ! i) = None
                \<longrightarrow> example ! i = unk)"
  unfolding getitem_with_unk [OF assms]
  by (auto simp: nth_append resolve_def)

theorem getitem_unknown_token_witness:
  "py_index (data example_dataset) 0 = Inr long_tokens
   \<and> py_index (labels example_dataset) 0 = Inr 1
   \<and> in_long 1
   \<and> word2idx example_dataset ''<unk>'' = Some 1
   \<and> word2idx example_dataset (long_tokens ! 1) = None
   \<and> (\<exists>example cnt. getitem example_dataset 0 = Inr (example, 1, cnt)
         \<and> (\<forall>i. i < length long_tokens \<and> i < MAX_LEN
                  \<and> word2idx example_dataset (long_tokens ! i) = None
                \<longrightarrow> example ! i = 1))"
proof -
  have m: "word2idx example_dataset (long_tokens ! 1) = None"
    by (simp add: example_dataset_def unk_vocab_def long_tokens_def)
  show ?thesis
    using example_tokens example_label in_long_1 example_unk m
      getitem_unknown_token [OF example_tokens example_label in_long_1 example_unk example_ran]
    by simp
qed

text \<open>
  C8. The example of the specification: a dataset built by \<open>__init__\<close> that has the
  sentence "this is really simple" at index \<open>i\<close>, under any vocabulary that maps
  this to 5, is to 9, really to 41 and simple to 12. \<open>__getitem__\<close> returns the
  encoded sequence [5, 9, 41, 12, 0, 0, 0, 0], the label, and the length 4.
\<close>

theorem getitem_spec_example:
  assumes "SentenceDataset_init X y w2i = Inr self"
    and "i < length X" and "X ! i = ''this is really simple''"
    and "i < length y" and "in_long (y ! i)"
    and "w2i ''this'' = Some 5" and "w2i ''is'' = Some 9"
    and "w2i ''really'' = Some 41" and "w2i ''simple'' = Some 12"
  shows "getitem self (int i) = Inr ([5, 9, 41, 12, 0, 0, 0, 0], y ! i, 4)"
proof -
  have self: "self = \<lparr>data = map (\<lambda>sentence. str_split (str_lower sentence)) X,
                       labels = y, word2idx = w2i\<rparr>"
    using assms(1) by (rule SentenceDataset_init_Inr)
  have tokens: "py_index (data self) (int i) = Inr [''this'', ''is'', ''really'', ''simple'']"
    using assms(2,3) by (simp add: self py_index_nat spec_sentence_tokens)
  have label: "py_index (labels self) (int i) = Inr (y ! i)"
    using assms(4) by (simp add: self py_index_nat)
  have enc: "encode (word2idx self) [''this'', ''is'', ''really'', ''simple'']
               = map Some [5, 9, 41, 12, 0, 0, 0, 0]"
    using assms(6-9)
    by (simp add: self encode_def dict_get_def MAX_LEN_def numeral_eq_Suc)
  have "list_all in_long [5, 9, 41, 12, 0, 0, 0, 0]"
    by (simp add: in_long_def)
  with tokens label enc assms(5) show ?thesis
    by (simp add: getitem_Inr MAX_LEN_def)
qed

theorem getitem_spec_example_witness:
  "SentenceDataset_init spec_X example_y spec_vocab = Inr spec_dataset
   \<and> (0::nat) < length spec_X \<and> spec_X ! 0 = ''this is really simple''
   \<and> (0::nat) < length example_y \<and> in_long (example_y ! 0)
   \<and> spec_vocab ''this'' = Some 5 \<and> spec_vocab ''is'' = Some 9
   \<and> spec_vocab ''really'' = Some 41 \<and> spec_vocab ''simple'' = Some 12
   \<and> getitem spec_dataset (int 0) = Inr ([5, 9, 41, 12, 0, 0, 0, 0], example_y ! 0, 4)"
proof -
  have a: "(0::nat) < length spec_X" "spec_X ! 0 = ''this is really simple''"
    by (simp_all add: spec_X_def)
  have b: "(0::nat) < length example_y" "in_long (example_y ! 0)"
    by (simp_all add: example_y_def in_long_def)
  have c: "spec_vocab ''this'' = Some 5" "spec_vocab ''is'' = Some 9"
    "spec_vocab ''really'' = Some 41" "spec_vocab ''simple'' = Some 12"
    by (simp_all add: spec_vocab_def)
  show ?thesis
    using spec_init a b c getitem_spec_example [OF spec_init a b c] by simp
qed

text \<open>
  C10. Whenever \<open>__getitem__\<close> returns, the encoded sequence has \<open>MAX_LEN\<close>
  entries; every position at or after the returned length holds the pad index 0, so the
  padding is the suffix from the returned length on; every position before it holds
  what the vocabulary lookup gives for the token at that position, which is a value of
  the vocabulary (the token's own index or the index of \<open>"<unk>"\<close>).
\<close>

theorem getitem_padding_suffix:
  assumes "getitem self index = Inr (example, label, cnt)"
  shows "\<exists>tokens. py_index (data self) index = Inr tokens
           \<and> cnt = int (min (length tokens) MAX_LEN)
           \<and> length example = MAX_LEN
           \<and> drop (nat cnt) example = replicate (MAX_LEN - nat cnt) 0
           \<and> (\<forall>i. nat cnt \<le> i \<and> i < MAX_LEN \<longrightarrow> example ! i = 0)
           \<and> (\<forall>i. i < nat cnt \<longrightarrow>
                 Some (example ! i)
                   = dict_get (word2idx self) (tokens ! i) (word2idx self ''<unk>'')
                 \<and> example ! i \<in> ran (word2idx self))"
proof -
  from assms obtain tokens where tok: "py_index (data self) index = Inr tokens"
    and cnt: "cnt = int (min (length tokens) MAX_LEN)"
    and enc: "map Some example = encode (word2idx self) tokens"
    by (auto simp: getitem_Inr)
  have len: "length example = MAX_LEN"
    using assms by (rule getitem_length)
  have n: "nat cnt = min (length tokens) MAX_LEN"
    using cnt by simp
  have nth: "Some (example ! i) = encode (word2idx self) tokens ! i" if "i < MAX_LEN" for i
    using that len enc by (metis nth_map)
  have pad: "example ! i = 0" if "nat cnt \<le> i" "i < MAX_LEN" for i
    using nth [OF that(2)] that n
    by (auto simp: encode_def nth_append min_def split: if_splits)
  have voc: "Some (example ! i) = dict_get (word2idx self) (tokens ! i) (word2idx self ''<unk>'')"
    if "i < nat cnt" for i
    using nth [of i] that n
    by (auto simp: encode_def nth_append)
  have ran: "example ! i \<in> ran (word2idx self)" if "i < nat cnt" for i
    using voc [OF that]
    by (auto simp: dict_get_def ran_def split: option.splits)
  have "drop (nat cnt) example = replicate (MAX_LEN - nat cnt) 0"
    using len pad by (auto simp: list_eq_iff_nth_eq)
  with tok cnt len pad voc ran show ?thesis
    by blast
qed

theorem getitem_padding_suffix_witness:
  "getitem example_dataset 1 = Inr ([5, 9, 41, 12, 0, 0, 0, 0], 1, 4)
   \<and> (\<exists>tokens. py_index (data example_dataset) 1 = Inr tokens
         \<and> (4::int) = int (min (length tokens) MAX_LEN)
         \<and> length [5, 9, 41, 12, 0, 0, 0, 0::int] = MAX_LEN
         \<and> drop (nat 4) [5, 9, 41, 12, 0, 0, 0, 0::int] = replicate (MAX_LEN - nat 4) 0
         \<and> (\<forall>i. nat 4 \<le> i \<and> i < MAX_LEN \<longrightarrow> [5, 9, 41, 12, 0, 0, 0, 0::int] ! i = 0)
         \<and> (\<forall>i. i < nat 4 \<longrightarrow>
               Some ([5, 9, 41, 12, 0, 0, 0, 0::int] ! i)
                 = dict_get (word2idx example_dataset) (tokens ! i)
                     (word2idx example_dataset ''<unk>'')
               \<and> [5, 9, 41, 12, 0, 0, 0, 0::int] ! i \<in> ran (word2idx example_dataset)))"
  using example_getitem_1 getitem_padding_suffix [OF example_getitem_1] by simp

section \<open>Properties of the attention models\<close>

subsection \<open>The library on meta tensors\<close>

lemma meta_torch_sel:
  "t_shape meta_torch x = dims x"
  "F_linear meta_torch x w b
     = map_option meta_float (linear_shape (dims x) (dims w) (map_option dims b))"
  "torch_matmul meta_torch x y = map_option meta_float (matmul_shape (dims x) (dims y))"
  "t_transpose meta_torch x = map_option meta_float (transpose_shape (dims x))"
  "t_mul meta_torch x c = meta_float (dims x)"
  "F_softmax meta_torch x = meta_float (dims x)"
  "F_dropout meta_torch x p tr = meta_float (dims x)"
  "F_relu meta_torch x = meta_float (dims x)"
  "t_add meta_torch x y = map_option meta_float (broadcast_shapes (dims x) (dims y))"
  "F_embedding meta_torch i w = embedding_meta i w"
  "torch_arange meta_torch n = meta_long [n] n"
  "F_layer_norm meta_torch x ns w b' e
     = map_option meta_float (layer_norm_shape (dims x) ns (dims w) (dims b'))"
  "t_mean meta_torch x = map_option meta_float (mean_shape (dims x))"
  "torch_cat meta_torch xs = map_option meta_float (cat_shape (map dims xs))"
  "t_squeeze meta_torch x = map_option meta_float (squeeze_shape (dims x))"
  by (simp_all add: meta_torch_def)

lemma meta_sel:
  "dims (meta_float s) = s" "ubound (meta_float s) = None"
  "dims (meta_long s b) = s" "ubound (meta_long s b) = Some b"
  by (simp_all add: meta_float_def meta_long_def)

lemma Linear_forward_meta:
  "Linear_forward meta_torch (Linear_init i out b) (meta_float (pre @ [i]))
     = Some (meta_float (pre @ [out]))"
  by (simp add: Linear_forward_def Linear_init_def meta_torch_sel meta_sel linear_shape_def)

lemma LayerNorm_forward_meta:
  "LayerNorm_forward meta_torch (LayerNorm_init n) (meta_float (pre @ [n]))
     = Some (meta_float (pre @ [n]))"
  by (simp add: LayerNorm_forward_def LayerNorm_init_def meta_torch_sel meta_sel
      layer_norm_shape_def)

lemma broadcast_same: "broadcast_rev xs xs = Some xs"
  by (induction xs) simp_all

lemma broadcast_shapes_same: "broadcast_shapes s s = Some s"
  by (simp add: broadcast_shapes_def broadcast_same)

lemma add_meta_same:
  "t_add meta_torch (meta_float s) (meta_float s) = Some (meta_float s)"
  by (simp add: meta_torch_sel meta_sel broadcast_shapes_same)

lemma transpose_shape_3: "transpose_shape [B, n, m] = Some [B, m, n]"
  by (simp add: transpose_shape_def)

lemma matmul_shape_3: "matmul_shape [B, n, m] [B, m, p] = Some [B, n, p]"
  by (simp add: matmul_shape_def broadcast_shapes_same)

lemma linear_shape_3:
  "linear_shape [B, n, i] [out, i] None = Some [B, n, out]"
  "linear_shape [B, n, i] [out, i] (Some [out]) = Some [B, n, out]"
  by (simp_all add: linear_shape_def)

lemma Head_forward_meta:
  assumes "Head_init head_size C p = Some h" and "0 < C"
  shows "Head_forward meta_torch h (meta_float [B, Tn, C]) = Some (meta_float [B, Tn, head_size])"
proof -
  from assms(1) obtain d where h: "h = \<lparr>head_key = Linear_init C head_size False,
      head_query = Linear_init C head_size False,
      head_value = Linear_init C head_size False, head_dropout = d\<rparr>"
    by (auto simp: Head_init_def split: bind_splits)
  show ?thesis
    using assms(2)
    by (simp add: Head_forward_def h Linear_forward_def Linear_init_def pow_neg_half_def
        Dropout_forward_def meta_torch_sel meta_sel linear_shape_3 transpose_shape_3
        matmul_shape_3)
qed

lemma FeedFoward_forward_meta:
  assumes "FeedFoward_init C p = Some f"
  shows "FeedFoward_forward meta_torch f (meta_float [B, Tn, C]) = Some (meta_float [B, Tn, C])"
proof -
  from assms obtain d where f: "f = \<lparr>net_0 = Linear_init C (4 * C) True,
      net_2 = Linear_init (4 * C) C True, net_3 = d\<rparr>"
    by (auto simp: FeedFoward_init_def split: bind_splits)
  show ?thesis
    by (simp add: FeedFoward_forward_def f Linear_forward_def Linear_init_def
        Dropout_forward_def meta_torch_sel meta_sel linear_shape_3)
qed

subsection \<open>Shapes through the layers\<close>

lemma those_replicate_Some: "those (replicate n (Some x)) = Some (replicate n x)"
  by (induction n) simp_all

lemma those_replicate_eq:
  "those (replicate n v) = Some xs \<Longrightarrow> 0 < n \<Longrightarrow> \<exists>x. v = Some x \<and> xs = replicate n x"
  by (cases v) (auto simp: those_replicate_Some gr0_conv_Suc)

lemma cat_shape_replicate:
  "0 < n \<Longrightarrow> cat_shape (replicate n [B, Tn, h]) = Some [B, Tn, n * h]"
  by (cases n) (simp_all add: cat_shape_def list_all_iff sum_list_replicate)

lemma MultiHeadAttention_forward_meta:
  assumes "MultiHeadAttention_init n head_size C p = Some m" and "0 < C" and "0 < n"
  shows "MultiHeadAttention_forward meta_torch m (meta_float [B, Tn, C])
           = Some (meta_float [B, Tn, C])"
proof -
  from assms(1) obtain hs d where hs: "those (replicate n (Head_init head_size C 0)) = Some hs"
    and m: "m = \<lparr>heads = hs, proj = Linear_init (head_size * n) C True, mha_dropout = d\<rparr>"
    by (auto simp: MultiHeadAttention_init_def split: bind_splits)
  from those_replicate_eq [OF hs assms(3)] obtain h
    where h: "Head_init head_size C 0 = Some h" and hsr: "hs = replicate n h"
    by blast
  have heads: "map (\<lambda>h. Head_forward meta_torch h (meta_float [B, Tn, C])) hs
      = replicate n (Some (meta_float [B, Tn, head_size]))"
    by (simp add: hsr Head_forward_meta [OF h assms(2)])
  have cat: "cat_shape (replicate n [B, Tn, head_size]) = Some [B, Tn, head_size * n]"
    using cat_shape_replicate [OF assms(3)] by (simp add: mult.commute)
  show ?thesis
    by (simp add: MultiHeadAttention_forward_def m heads those_replicate_Some
        meta_torch_sel meta_sel cat Linear_forward_def Linear_init_def linear_shape_3
        Dropout_forward_def)
qed

lemma layer_norm_shape_3: "layer_norm_shape [B, n, C] [C] [C] [C] = Some [B, n, C]"
  by (simp add: layer_norm_shape_def)

lemma Block_forward_meta:
  assumes "Block_init n head_size C = Some b" and "0 < C"
  shows "Block_forward meta_torch b (meta_float [B, Tn, C]) = Some (meta_float [B, Tn, C])"
proof -
  from assms(1) obtain hsz sa ffwd where n: "0 < n"
    and sa: "MultiHeadAttention_init n hsz C 0 = Some sa"
    and ffwd: "FeedFoward_init C 0 = Some ffwd"
    and b: "b = \<lparr>blk_sa = sa, blk_ffwd = ffwd, blk_ln1 = LayerNorm_init C,
                  blk_ln2 = LayerNorm_init C\<rparr>"
    by (auto simp: Block_init_def floordiv_def split: bind_splits if_splits)
  show ?thesis
    by (simp add: Block_forward_def b LayerNorm_forward_def LayerNorm_init_def
        meta_torch_sel meta_sel layer_norm_shape_3
        MultiHeadAttention_forward_meta [OF sa assms(2) n]
        FeedFoward_forward_meta [OF ffwd] broadcast_shapes_same)
qed

lemma Sequential_forward_meta:
  assumes "\<forall>b \<in> set bs. Block_init n head_size C = Some b" and "0 < C"
  shows "Sequential_forward meta_torch bs (meta_float [B, Tn, C]) = Some (meta_float [B, Tn, C])"
  using assms(1)
proof (induction bs)
  case Nil
  show ?case by simp
next
  case (Cons b bs)
  then have b: "Block_init n head_size C = Some b"
    and rest: "Sequential_forward meta_torch bs (meta_float [B, Tn, C])
                 = Some (meta_float [B, Tn, C])"
    by simp_all
  show ?case
    by (simp add: Block_forward_meta [OF b assms(2)] rest)
qed

lemma embedding_meta_long:
  "V \<le> N \<Longrightarrow> embedding_meta (meta_long s V) (meta_float [N, D]) = Some (meta_float (s @ [D]))"
  by (simp add: embedding_meta_def meta_sel)

lemma broadcast_shapes_pos: "broadcast_shapes [B, Tn, D] [Tn, D] = Some [B, Tn, D]"
  by (simp add: broadcast_shapes_def)

lemma mean_shape_3: "mean_shape [B, Tn, D] = Some [B, D]"
  by (simp add: mean_shape_def)

lemma linear_shape_2: "linear_shape [B, D] [out, D] (Some [out]) = Some [B, out]"
  by (simp add: linear_shape_def)

lemma squeeze_shape_2:
  "squeeze_shape [B, n] = Some (if n = 1 then [B] else [B, n])"
  by (simp add: squeeze_shape_def)

lemma embed_meta:
  assumes "V \<le> N" and "Tn \<le> L"
  shows "F_embedding meta_torch (meta_long [B, Tn] V) (meta_float [N, D])
           = Some (meta_float [B, Tn, D])"
    and "F_embedding meta_torch (torch_arange meta_torch Tn) (meta_float [L, D])
           = Some (meta_float [Tn, D])"
    and "t_add meta_torch (meta_float [B, Tn, D]) (meta_float [Tn, D])
           = Some (meta_float [B, Tn, D])"
  using assms
  by (simp_all add: meta_torch_sel embedding_meta_long meta_sel broadcast_shapes_pos)

lemma classify_meta:
  "t_mean meta_torch (meta_float [B, Tn, D]) = Some (meta_float [B, D])"
  "Linear_forward meta_torch (Linear_init D out True) (meta_float [B, D])
     = Some (meta_float [B, out])"
  "t_squeeze meta_torch (meta_float [B, Suc 0]) = Some (meta_float [B])"
  by (simp_all add: meta_torch_sel meta_sel mean_shape_3 Linear_forward_def Linear_init_def
      linear_shape_2 squeeze_shape_2)

lemma SimpleSelfAttentionModel_forward_meta:
  assumes "SimpleSelfAttentionModel_init out [N, D] L = Some m"
    and "0 < D" and "V \<le> N" and "Tn \<le> L"
  shows "SimpleSelfAttentionModel_forward meta_torch m (meta_long [B, Tn] V)
           = Some (meta_float (if out = 1 then [B] else [B, out]))"
proof -
  from assms(1) obtain sa ffwd where sa: "Head_init D D 0 = Some sa"
    and ffwd: "FeedFoward_init D 0 = Some ffwd"
    and m: "m = \<lparr>ssa_n_head = 1, ssa_max_length = L,
                  ssa_token_embedding_table = meta_float [N, D],
                  ssa_position_embedding_table = meta_float [L, D],
                  ssa_sa = sa, ssa_ffwd = ffwd,
                  ssa_ln1 = LayerNorm_init D, ssa_ln2 = LayerNorm_init D,
                  ssa_output_size = out,
                  ssa_output = Linear_init D out True\<rparr>"
    by (auto simp: SimpleSelfAttentionModel_init_def floordiv_def split: bind_splits)
  have ln: "LayerNorm_forward meta_torch (LayerNorm_init D) (meta_float [B, Tn, D])
              = Some (meta_float [B, Tn, D])"
    by (simp add: LayerNorm_forward_def LayerNorm_init_def meta_torch_sel meta_sel
        layer_norm_shape_3)
  have shape: "t_shape meta_torch (meta_long [B, Tn] V) = [B, Tn]"
    by (simp add: meta_torch_sel meta_sel)
  show ?thesis
    unfolding SimpleSelfAttentionModel_forward_def shape
    by (simp add: m embed_meta [OF assms(3,4)] ln Head_forward_meta [OF sa assms(2)]
        add_meta_same FeedFoward_forward_meta [OF ffwd] classify_meta)
qed

lemma MultiHeadAttentionModel_forward_meta:
  assumes "MultiHeadAttentionModel_init out [N, D] L n_head = Some m"
    and "0 < D" and "V \<le> N" and "Tn \<le> L"
  shows "MultiHeadAttentionModel_forward meta_torch m (meta_long [B, Tn] V) lengths
           = Some (meta_float (if out = 1 then [B] else [B, out]))"
proof -
  from assms(1) obtain hsz sa ffwd where n: "0 < n_head"
    and sa: "MultiHeadAttention_init n_head hsz D 0 = Some sa"
    and ffwd: "FeedFoward_init D 0 = Some ffwd"
    and m: "m = \<lparr>mhm_n_head = n_head, mhm_max_length = L,
                  mhm_token_embedding_table = meta_float [N, D],
                  mhm_position_embedding_table = meta_float [L, D],
                  mhm_sa = sa, mhm_ffwd = ffwd,
                  mhm_ln1 = LayerNorm_init D, mhm_ln2 = LayerNorm_init D,
                  mhm_output_size = out,
                  mhm_output = Linear_init D out True\<rparr>"
    by (auto simp: MultiHeadAttentionModel_init_def floordiv_def split: bind_splits if_splits)
  have ln: "LayerNorm_forward meta_torch (LayerNorm_init D) (meta_float [B, Tn, D])
              = Some (meta_float [B, Tn, D])"
    by (simp add: LayerNorm_forward_def LayerNorm_init_def meta_torch_sel meta_sel
        layer_norm_shape_3)
  have shape: "t_shape meta_torch (meta_long [B, Tn] V) = [B, Tn]"
    by (simp add: meta_torch_sel meta_sel)
  show ?thesis
    unfolding MultiHeadAttentionModel_forward_def shape
    by (simp add: m embed_meta [OF assms(3,4)] ln
        MultiHeadAttention_forward_meta [OF sa assms(2) n]
        add_meta_same FeedFoward_forward_meta [OF ffwd] classify_meta)
qed

lemma those_replicate_set:
  "those (replicate n v) = Some xs \<Longrightarrow> \<forall>x \<in> set xs. v = Some x"
  by (cases v; cases n) (auto simp: those_replicate_Some)

lemma TransformerEncoderModel_forward_meta:
  assumes "TransformerEncoderModel_init out [N, D] L n_head n_layer = Some m"
    and "0 < D" and "V \<le> N" and "Tn \<le> L"
  shows "TransformerEncoderModel_forward meta_torch m (meta_long [B, Tn] V)
           = Some (meta_float (if out = 1 then [B] else [B, out]))"
proof -
  from assms(1) obtain hsz blocks
    where blocks: "those (replicate n_layer (Block_init n_head hsz D)) = Some blocks"
    and m: "m = \<lparr>tem_n_head = n_head, tem_max_length = L, tem_emb_dim = D,
                  tem_token_embedding_table = meta_float [N, D],
                  tem_position_embedding_table = meta_float [L, D],
                  tem_blocks = blocks, tem_ln_f = LayerNorm_init D,
                  tem_output_size = out,
                  tem_output = Linear_init D out True\<rparr>"
    by (auto simp: TransformerEncoderModel_init_def split: bind_splits)
  have seq: "Sequential_forward meta_torch blocks (meta_float [B, Tn, D])
               = Some (meta_float [B, Tn, D])"
    using those_replicate_set [OF blocks] assms(2) by (rule Sequential_forward_meta)
  have ln: "LayerNorm_forward meta_torch (LayerNorm_init D) (meta_float [B, Tn, D])
              = Some (meta_float [B, Tn, D])"
    by (simp add: LayerNorm_forward_def LayerNorm_init_def meta_torch_sel meta_sel
        layer_norm_shape_3)
  have shape: "t_shape meta_torch (meta_long [B, Tn] V) = [B, Tn]"
    by (simp add: meta_torch_sel meta_sel)
  show ?thesis
    unfolding TransformerEncoderModel_forward_def shape
    by (simp add: m embed_meta [OF assms(3,4)] ln seq classify_meta)
qed

lemma Dropout_init_0: "Dropout_init 0 = Some \<lparr>drop_p = 0, drop_training = True\<rparr>"
  by (simp add: Dropout_init_def)

lemma Head_init_0: "\<exists>h. Head_init head_size C 0 = Some h"
  by (simp add: Head_init_def Dropout_init_0)

lemma FeedFoward_init_0: "\<exists>f. FeedFoward_init C 0 = Some f"
  by (simp add: FeedFoward_init_def Dropout_init_0)

lemma MultiHeadAttention_init_0: "\<exists>m. MultiHeadAttention_init n head_size C 0 = Some m"
proof -
  obtain h where "Head_init head_size C 0 = Some h"
    using Head_init_0 by blast
  then show ?thesis
    by (simp add: MultiHeadAttention_init_def those_replicate_Some Dropout_init_0)
qed

lemma Block_init_pos: "0 < n \<Longrightarrow> \<exists>b. Block_init n head_size C = Some b"
  using MultiHeadAttention_init_0 [of n "C div n" C] FeedFoward_init_0 [of C]
  by (auto simp: Block_init_def floordiv_def)

lemma SimpleSelfAttentionModel_init_Some:
  "\<exists>m. SimpleSelfAttentionModel_init out [N, D] L = Some m"
  using Head_init_0 [of D D] FeedFoward_init_0 [of D]
  by (auto simp: SimpleSelfAttentionModel_init_def floordiv_def)

lemma MultiHeadAttentionModel_init_Some:
  "0 < n_head \<Longrightarrow> \<exists>m. MultiHeadAttentionModel_init out [N, D] L n_head = Some m"
  using MultiHeadAttention_init_0 [of n_head "D div n_head" D] FeedFoward_init_0 [of D]
  by (auto simp: MultiHeadAttentionModel_init_def floordiv_def)

lemma TransformerEncoderModel_init_Some:
  assumes "0 < n_head"
  shows "\<exists>m. TransformerEncoderModel_init out [N, D] L n_head n_layer = Some m"
proof -
  obtain b where "Block_init n_head (D div n_head) D = Some b"
    using Block_init_pos [OF assms] by blast
  then show ?thesis
    using assms
    by (simp add: TransformerEncoderModel_init_def floordiv_def those_replicate_Some)
qed


subsection \<open>The concrete modules are what the constructors build\<close>

lemma example_head_init: "Head_init 16 50 0 = Some example_head"
  by (simp add: Head_init_def Dropout_init_def example_head_def)

lemma example_attention_init: "MultiHeadAttention_init 3 2 6 0 = Some example_attention"
  by (simp add: MultiHeadAttention_init_def Head_init_def Dropout_init_def
      those_replicate_Some example_attention_def)

lemma example_feedfoward_init: "FeedFoward_init 6 0 = Some example_feedfoward"
  by (simp add: FeedFoward_init_def Dropout_init_def example_feedfoward_def)

lemma example_block_init: "Block_init 3 7 6 = Some example_block"
  by (simp add: Block_init_def floordiv_def example_attention_init example_feedfoward_init
      example_block_def)

lemma example_model_init: "MultiHeadAttentionModel_init 1 [10, 6] 60 3 = Some example_model"
  by (simp add: MultiHeadAttentionModel_init_def floordiv_def example_attention_init
      example_feedfoward_init example_model_def)

subsection \<open>The claims about the attention models\<close>

text \<open>
  C4. For an input \<open>x\<close> of shape (B, T, C), \<open>Head.forward\<close> is the scaled
  dot-product attention of the specification on the query, key and value projections of
  \<open>x\<close>, with the dropout layer of the head applied to the softmax weights and with
  the scale \<open>C\<close> to the power -1/2, where \<open>C\<close> is the last dimension of \<open>x\<close>
  (the head size occurs nowhere in the scale). For \<open>C = 0\<close> the source raises at
  \<open>C ** -0.5\<close>, or earlier. In the instance below the head has size 16 and the
  input 50 channels, and the two would give different scales.
\<close>

theorem Head_forward_scaled_attention:
  assumes "t_shape T x = [B, Tn, C]"
  shows "Head_forward T self x =
           (if C = 0 then None
            else do {
              k \<leftarrow> Linear_forward T (head_key self) x;
              q \<leftarrow> Linear_forward T (head_query self) x;
              v \<leftarrow> Linear_forward T (head_value self) x;
              scaled_dot_product_attention T (real C powr (- (1 / 2)))
                (Dropout_forward T (head_dropout self)) q k v
            })"
  using assms
  by (auto simp: Head_forward_def scaled_dot_product_attention_def pow_neg_half_def Let_def
      split: bind_split)

theorem Head_forward_scaled_attention_witness:
  "t_shape meta_torch (meta_float [2, 8, 50]) = [2, 8, 50]
   \<and> Head_forward meta_torch example_head (meta_float [2, 8, 50]) =
       (if (50::nat) = 0 then None
        else do {
          k \<leftarrow> Linear_forward meta_torch (head_key example_head) (meta_float [2, 8, 50]);
          q \<leftarrow> Linear_forward meta_torch (head_query example_head) (meta_float [2, 8, 50]);
          v \<leftarrow> Linear_forward meta_torch (head_value example_head) (meta_float [2, 8, 50]);
          scaled_dot_product_attention meta_torch (real (50::nat) powr (- (1 / 2)))
            (Dropout_forward meta_torch (head_dropout example_head)) q k v
        })
   \<and> Head_forward meta_torch example_head (meta_float [2, 8, 50]) = Some (meta_float [2, 8, 16])
   \<and> real (50::nat) powr (- (1 / 2)) \<noteq> real (16::nat) powr (- (1 / 2))"
proof -
  have s: "t_shape meta_torch (meta_float [2, 8, 50]) = [2, 8, 50]"
    by (simp add: meta_torch_sel meta_sel)
  have "real (50::nat) powr (- (1 / 2)) < real (16::nat) powr (- (1 / 2))"
    by (rule powr_less_mono2_neg) simp_all
  then have d: "real (50::nat) powr (- (1 / 2)) \<noteq> real (16::nat) powr (- (1 / 2))"
    by simp
  have r: "Head_forward meta_torch example_head (meta_float [2, 8, 50])
             = Some (meta_float [2, 8, 16])"
    using Head_forward_meta [OF example_head_init, of 2 8] by simp
  show ?thesis
    using s r d Head_forward_scaled_attention [OF s, of example_head]
    by (simp only: simp_thms)
qed

text \<open>
  C5. \<open>Block.forward\<close> is the pre-norm residual composition: \<open>x\<close> becomes
  \<open>x + sa(ln1(x))\<close>, then the result \<open>x1\<close> becomes \<open>x1 + ffwd(ln2(x1))\<close>; each
  normalization is applied to the input of its sub-layer and none to a sum.
\<close>

theorem Block_forward_pre_norm:
  "Block_forward T self x =
     do {
       x1 \<leftarrow> pre_norm_residual T (LayerNorm_forward T (blk_ln1 self))
               (MultiHeadAttention_forward T (blk_sa self)) x;
       pre_norm_residual T (LayerNorm_forward T (blk_ln2 self))
         (FeedFoward_forward T (blk_ffwd self)) x1
     }"
  by (simp add: Block_forward_def pre_norm_residual_def)

theorem Block_forward_pre_norm_witness:
  "Block_forward meta_torch example_block (meta_float [2, 8, 6]) =
     do {
       x1 \<leftarrow> pre_norm_residual meta_torch (LayerNorm_forward meta_torch (blk_ln1 example_block))
               (MultiHeadAttention_forward meta_torch (blk_sa example_block))
               (meta_float [2, 8, 6]);
       pre_norm_residual meta_torch (LayerNorm_forward meta_torch (blk_ln2 example_block))
         (FeedFoward_forward meta_torch (blk_ffwd example_block)) x1
     }
   \<and> Block_forward meta_torch example_block (meta_float [2, 8, 6]) = Some (meta_float [2, 8, 6])"
proof -
  have r: "Block_forward meta_torch example_block (meta_float [2, 8, 6])
             = Some (meta_float [2, 8, 6])"
    using Block_forward_meta [OF example_block_init, of 2 8] by simp
  show ?thesis
    using r Block_forward_pre_norm [of meta_torch example_block "meta_float [2, 8, 6]"]
    by (simp only: simp_thms)
qed

text \<open>
  C6. Shapes of the logits. For each of the three classifiers, built by its constructor
  from an embedding matrix of shape (N, D) with \<open>D > 0\<close> (and at least one head),
  on a batch of shape (B, T) of token indices below N with T at most \<open>max_length\<close>:
  the constructor and \<open>forward\<close> return, and the result has shape (B) when
  \<open>output_size\<close> is 1, and shape (B, output_size) otherwise.
\<close>

theorem classifier_output_shape:
  assumes "0 < D" and "V \<le> N" and "Tn \<le> L" and "0 < n_head"
  shows "(\<exists>m. SimpleSelfAttentionModel_init out [N, D] L = Some m
            \<and> SimpleSelfAttentionModel_forward meta_torch m (meta_long [B, Tn] V)
                = Some (meta_float (if out = 1 then [B] else [B, out])))
       \<and> (\<exists>m. MultiHeadAttentionModel_init out [N, D] L n_head = Some m
            \<and> MultiHeadAttentionModel_forward meta_torch m (meta_long [B, Tn] V) lengths
                = Some (meta_float (if out = 1 then [B] else [B, out])))
       \<and> (\<exists>m. TransformerEncoderModel_init out [N, D] L n_head n_layer = Some m
            \<and> TransformerEncoderModel_forward meta_torch m (meta_long [B, Tn] V)
                = Some (meta_float (if out = 1 then [B] else [B, out])))"
proof (intro conjI)
  obtain m where m: "SimpleSelfAttentionModel_init out [N, D] L = Some m"
    using SimpleSelfAttentionModel_init_Some by blast
  from m SimpleSelfAttentionModel_forward_meta [OF m assms(1-3)]
  show "\<exists>m. SimpleSelfAttentionModel_init out [N, D] L = Some m
            \<and> SimpleSelfAttentionModel_forward meta_torch m (meta_long [B, Tn] V)
                = Some (meta_float (if out = 1 then [B] else [B, out]))"
    by blast
next
  obtain m where m: "MultiHeadAttentionModel_init out [N, D] L n_head = Some m"
    using MultiHeadAttentionModel_init_Some [OF assms(4)] by blast
  from m MultiHeadAttentionModel_forward_meta [OF m assms(1-3)]
  show "\<exists>m. MultiHeadAttentionModel_init out [N, D] L n_head = Some m
            \<and> MultiHeadAttentionModel_forward meta_torch m (meta_long [B, Tn] V) lengths
                = Some (meta_float (if out = 1 then [B] else [B, out]))"
    by blast
next
  obtain m where m: "TransformerEncoderModel_init out [N, D] L n_head n_layer = Some m"
    using TransformerEncoderModel_init_Some [OF assms(4)] by blast
  from m TransformerEncoderModel_forward_meta [OF m assms(1-3)]
  show "\<exists>m. TransformerEncoderModel_init out [N, D] L n_head n_layer = Some m
            \<and> TransformerEncoderModel_forward meta_torch m (meta_long [B, Tn] V)
                = Some (meta_float (if out = 1 then [B] else [B, out]))"
    by blast
qed

theorem classifier_output_shape_witness:
  "(0::nat) < 50 \<and> (400000::nat) \<le> 400002 \<and> (8::nat) \<le> 60 \<and> (0::nat) < 3
   \<and> (\<exists>m. SimpleSelfAttentionModel_init 1 [400002, 50] 60 = Some m
         \<and> SimpleSelfAttentionModel_forward meta_torch m (meta_long [128, 8] 400000)
             = Some (meta_float [128]))
   \<and> (\<exists>m. MultiHeadAttentionModel_init 1 [400002, 50] 60 3 = Some m
         \<and> MultiHeadAttentionModel_forward meta_torch m (meta_long [128, 8] 400000)
             (None :: int list option) = Some (meta_float [128]))
   \<and> (\<exists>m. TransformerEncoderModel_init 1 [400002, 50] 60 3 3 = Some m
         \<and> TransformerEncoderModel_forward meta_torch m (meta_long [128, 8] 400000)
             = Some (meta_float [128]))
   \<and> (\<exists>m. TransformerEncoderModel_init 3 [400002, 50] 60 3 3 = Some m
         \<and> TransformerEncoderModel_forward meta_torch m (meta_long [128, 8] 400000)
             = Some (meta_float [128, 3]))"
proof -
  have h: "(0::nat) < 50" "(400000::nat) \<le> 400002" "(8::nat) \<le> 60" "(0::nat) < 3"
    by simp_all
  show ?thesis
    using classifier_output_shape [OF h, of 1 128 "None :: int list option" 3]
      classifier_output_shape [OF h, of 3 128 "None :: int list option" 3]
    by simp
qed

text \<open>
  C9. \<open>MultiHeadAttentionModel.forward\<close> does not depend on its argument
  \<open>lengths\<close>: any two values of it (\<open>None\<close> included) give the same result on
  the same batch. No position is masked, in the attention or in the mean.
\<close>

theorem MultiHeadAttentionModel_forward_ignores_lengths:
  "MultiHeadAttentionModel_forward T self x lengths1
     = MultiHeadAttentionModel_forward T self x lengths2"
  by (simp add: MultiHeadAttentionModel_forward_def)

theorem MultiHeadAttentionModel_forward_ignores_lengths_witness:
  "MultiHeadAttentionModel_forward meta_torch example_model (meta_long [2, 8] 10)
       (None :: int list option)
     = MultiHeadAttentionModel_forward meta_torch example_model (meta_long [2, 8] 10)
         (Some [4, 8])
   \<and> MultiHeadAttentionModel_forward meta_torch example_model (meta_long [2, 8] 10)
         (Some [4, 8 :: int]) = Some (meta_float [2])"
proof -
  have r: "MultiHeadAttentionModel_forward meta_torch example_model (meta_long [2, 8] 10)
         (Some [4, 8 :: int]) = Some (meta_float [2])"
    using MultiHeadAttentionModel_forward_meta [OF example_model_init, of 10 8 2 "Some [4, 8]"]
    by simp
  show ?thesis
    using r MultiHeadAttentionModel_forward_ignores_lengths
      [of meta_torch example_model "meta_long [2, 8] 10" "None :: int list option" "Some [4, 8]"]
    by (simp only: simp_thms)
qed

end
